theory Spec2Isabelle
  imports Main
begin

section \<open>JavaScript values and exceptions\<close>

text \<open>
  The repository holds four near-identical revisions of one page script: two in
  \<^verbatim>\<open>src/script.js\<close> (Version 3.0, lines 1-212, and Version 2.0, lines 213-426) and two in
  \<^verbatim>\<open>src/unnamed/part_000\<close> (lines 1-178, called A below, and lines 179-339, called B).
  Where the revisions differ, each variant is embedded under its own name.

  \<^verbatim>\<open>getAttribute\<close> and \<^verbatim>\<open>localStorage.getItem\<close> return \<^verbatim>\<open>null\<close> or a string: a
  \<open>string option\<close>. A handler mutates the page and may throw; the mutations made before the
  throw stay, so a handler returns the exception (if any) together with the page.
\<close>

datatype error = TypeError | StorageError

type_synonym 's outcome = "error option \<times> 's"

definition andThen :: "'s outcome \<Rightarrow> ('s \<Rightarrow> 's outcome) \<Rightarrow> 's outcome" where
  "andThen r f = (case r of (None, s) \<Rightarrow> f s | (Some e, s) \<Rightarrow> (Some e, s))"

text \<open>JavaScript truthiness of a value that is \<^verbatim>\<open>null\<close> or a string: only \<^verbatim>\<open>null\<close> and
  the empty string are falsy.\<close>

definition truthy :: "string option \<Rightarrow> bool" where
  "truthy v = (case v of None \<Rightarrow> False | Some s \<Rightarrow> s \<noteq> [])"

text \<open>\<^verbatim>\<open>setAttribute(name, b)\<close> with a boolean stores its string conversion.\<close>

definition boolString :: "bool \<Rightarrow> string" where
  "boolString b = (if b then ''true'' else ''false'')"

section \<open>Theme toggle\<close>

text \<open>
  The part of the page the theme code touches: whether \<^verbatim>\<open>#theme-toggle-btn\<close> exists, the
  text of \<^verbatim>\<open>#theme-icon\<close> (\<open>None\<close> when the element is absent), whether the root element
  carries class \<^verbatim>\<open>dark-mode\<close>, whether \<^verbatim>\<open>localStorage\<close> can be used (when not, every
  access throws), the value stored under key \<^verbatim>\<open>theme\<close>, and whether the click listener
  has been attached to the button.
\<close>

record theme_page =
  toggleBtn :: bool
  themeIcon :: "string option"
  darkMode :: bool
  storageOk :: bool
  storedTheme :: "string option"
  listening :: bool

definition getItem :: "theme_page \<Rightarrow> error + string option" where
  "getItem p = (if storageOk p then Inr (storedTheme p) else Inl StorageError)"

definition setItem :: "string \<Rightarrow> theme_page \<Rightarrow> theme_page outcome" where
  "setItem v p = (if storageOk p then (None, p\<lparr>storedTheme := Some v\<rparr>) else (Some StorageError, p))"

text \<open>\<^verbatim>\<open>updateIcon\<close> of script.js (lines 23-30 and 237-241): guarded by \<^verbatim>\<open>if (themeIcon)\<close>.\<close>

definition updateIcon :: "bool \<Rightarrow> theme_page \<Rightarrow> theme_page" where
  "updateIcon isDark p =
     (case themeIcon p of
        None \<Rightarrow> p
      | Some _ \<Rightarrow> p\<lparr>themeIcon := Some (if isDark then ''light_mode'' else ''dark_mode'')\<rparr>)"

text \<open>\<^verbatim>\<open>updateIcon\<close> of part_000 revision A (lines 19-22): no guard, so writing
  \<^verbatim>\<open>textContent\<close> of \<^verbatim>\<open>null\<close> throws a TypeError.\<close>

definition updateIcon_A :: "bool \<Rightarrow> theme_page \<Rightarrow> theme_page outcome" where
  "updateIcon_A isDark p =
     (case themeIcon p of
        None \<Rightarrow> (Some TypeError, p)
      | Some _ \<Rightarrow> (None, p\<lparr>themeIcon := Some (if isDark then ''light_mode'' else ''dark_mode'')\<rparr>))"

text \<open>The click handler of script.js (lines 42-51; lines 256-266 are the same code).\<close>

definition themeClick :: "theme_page \<Rightarrow> theme_page outcome" where
  "themeClick p =
     (let p1 = p\<lparr>darkMode := \<not> darkMode p\<rparr>;
          isDarkNow = darkMode p1;
          p2 = updateIcon isDarkNow p1
      in setItem (if isDarkNow then ''dark'' else ''light'') p2)"

text \<open>The click handler of part_000 revision A (lines 31-43).\<close>

definition themeClick_A :: "theme_page \<Rightarrow> theme_page outcome" where
  "themeClick_A p =
     (let p1 = p\<lparr>darkMode := \<not> darkMode p\<rparr>;
          isDark = darkMode p1
      in andThen (updateIcon_A isDark p1) (setItem (if isDark then ''dark'' else ''light'')))"

text \<open>The click handler of part_000 revision B (lines 298-302). It is attached only when
  both the button and the icon exist (line 291), so the icon write cannot fail there; on a
  page without the icon the write would throw like in revision A.\<close>

definition themeClick_B :: "theme_page \<Rightarrow> theme_page outcome" where
  "themeClick_B p =
     (let isDark = \<not> darkMode p;
          p1 = p\<lparr>darkMode := isDark\<rparr>
      in case themeIcon p1 of
           None \<Rightarrow> (Some TypeError, p1)
         | Some _ \<Rightarrow>
             setItem (if isDark then ''dark'' else ''light'')
               (p1\<lparr>themeIcon := Some (if isDark then ''light_mode'' else ''dark_mode'')\<rparr>))"

text \<open>\<^verbatim>\<open>isDarkInitial\<close> of script.js line 35 (the condition of line 247 is the same
  expression).\<close>

definition isDarkInitial :: "string option \<Rightarrow> bool \<Rightarrow> bool" where
  "isDarkInitial currentTheme systemDark =
     (currentTheme = Some ''dark'' \<or> (\<not> truthy currentTheme \<and> systemDark))"

text \<open>\<^verbatim>\<open>initThemeToggle\<close> of script.js Version 3.0 (lines 17-53): only the icon is synced.\<close>

definition initThemeToggle_v3 :: "bool \<Rightarrow> theme_page \<Rightarrow> theme_page outcome" where
  "initThemeToggle_v3 systemDark p =
     (case getItem p of
        Inl e \<Rightarrow> (Some e, p)
      | Inr currentTheme \<Rightarrow>
          (let p1 = updateIcon (isDarkInitial currentTheme systemDark) p
           in (None, p1\<lparr>listening := toggleBtn p1\<rparr>)))"

text \<open>\<^verbatim>\<open>initThemeToggle\<close> of script.js Version 2.0 (lines 231-268): also adds the class.\<close>

definition initThemeToggle_v2 :: "bool \<Rightarrow> theme_page \<Rightarrow> theme_page outcome" where
  "initThemeToggle_v2 systemPrefersDark p =
     (case getItem p of
        Inl e \<Rightarrow> (Some e, p)
      | Inr savedTheme \<Rightarrow>
          (let p1 = (if savedTheme = Some ''dark'' \<or> (\<not> truthy savedTheme \<and> systemPrefersDark)
                     then updateIcon True (p\<lparr>darkMode := True\<rparr>)
                     else updateIcon False p)
           in (None, p1\<lparr>listening := toggleBtn p1\<rparr>)))"

text \<open>\<^verbatim>\<open>initThemeToggle\<close> of part_000 revision A (lines 13-45).\<close>

definition initThemeToggle_A :: "theme_page \<Rightarrow> theme_page outcome" where
  "initThemeToggle_A p =
     andThen (if darkMode p then updateIcon_A True p else (None, p))
       (\<lambda>p1. (None, p1\<lparr>listening := toggleBtn p1\<rparr>))"

text \<open>\<^verbatim>\<open>initThemeToggle\<close> of part_000 revision B (lines 286-303).\<close>

definition initThemeToggle_B :: "theme_page \<Rightarrow> theme_page outcome" where
  "initThemeToggle_B p =
     (if \<not> toggleBtn p \<or> themeIcon p = None then (None, p)
      else (let p1 = (if darkMode p then p\<lparr>themeIcon := Some ''light_mode''\<rparr> else p)
            in (None, p1\<lparr>listening := True\<rparr>)))"

text \<open>A user click on the toggle button runs the handler when one is attached.\<close>

definition clickToggle :: "(theme_page \<Rightarrow> theme_page outcome) \<Rightarrow> theme_page \<Rightarrow> theme_page outcome" where
  "clickToggle handler p = (if toggleBtn p \<and> listening p then handler p else (None, p))"

text \<open>The icon (when there is one) and the stored value are the ones that belong to the
  mode the page is in.\<close>

definition themeSynced :: "theme_page \<Rightarrow> bool" where
  "themeSynced p =
     ((themeIcon p = None \<or>
       themeIcon p = Some (if darkMode p then ''light_mode'' else ''dark_mode'')) \<and>
      storedTheme p = Some (if darkMode p then ''dark'' else ''light''))"

section \<open>Mobile navigation menu\<close>

text \<open>
  The page as the menu code sees it, on a page where both \<^verbatim>\<open>#hamburger-button\<close> and
  \<^verbatim>\<open>#nav-links-menu\<close> exist (no handler is attached otherwise): the button's
  \<^verbatim>\<open>aria-expanded\<close> attribute (\<open>None\<close> when missing), class \<^verbatim>\<open>active\<close> on the button and
  on the menu, the inline \<^verbatim>\<open>overflow\<close> style of the body, and the text of the icon inside
  the button (\<open>None\<close> when there is no such element).
\<close>

record menu_page =
  ariaExpanded :: "string option"
  btnActive :: bool
  menuActive :: bool
  bodyOverflow :: string
  iconSpan :: "string option"

text \<open>\<^verbatim>\<open>toggleMenu\<close> of script.js (lines 80-96; lines 295-311 and part_000 lines 72-88 are
  the same code).\<close>

definition toggleMenu :: "menu_page \<Rightarrow> menu_page" where
  "toggleMenu p =
     (let isExpanded = (ariaExpanded p = Some ''true'')
      in p\<lparr>ariaExpanded := Some (boolString (\<not> isExpanded)),
            btnActive := \<not> btnActive p,
            menuActive := \<not> menuActive p,
            bodyOverflow := (if \<not> isExpanded then ''hidden'' else ''''),
            iconSpan := (case iconSpan p of
                           None \<Rightarrow> None
                         | Some _ \<Rightarrow> Some (if \<not> isExpanded then ''close'' else ''menu''))\<rparr>)"

text \<open>\<^verbatim>\<open>toggleMenu(forceClose)\<close> of part_000 revision B (lines 198-213).\<close>

definition toggleMenu_B :: "bool \<Rightarrow> menu_page \<Rightarrow> menu_page" where
  "toggleMenu_B forceClose p =
     (let isExpanded = (ariaExpanded p = Some ''true'');
          willExpand = (if forceClose then False else \<not> isExpanded)
      in p\<lparr>ariaExpanded := Some (boolString willExpand),
            menuActive := willExpand,
            btnActive := willExpand,
            iconSpan := (case iconSpan p of
                           None \<Rightarrow> None
                         | Some _ \<Rightarrow> Some (if willExpand then ''close'' else ''menu'')),
            bodyOverflow := (if willExpand then ''hidden'' else '''')\<rparr>)"

text \<open>The listeners: the trigger (script.js lines 99-102, part_000 lines 215-218), a link
  inside the menu (script.js lines 105-109, part_000 lines 221-223) and a click elsewhere in
  the document (script.js lines 112-118, part_000 lines 226-230).\<close>

definition triggerClick :: "menu_page \<Rightarrow> menu_page" where
  "triggerClick p = toggleMenu p"

definition linkClick :: "menu_page \<Rightarrow> menu_page" where
  "linkClick p = (if menuActive p then toggleMenu p else p)"

definition documentClick :: "bool \<Rightarrow> bool \<Rightarrow> menu_page \<Rightarrow> menu_page" where
  "documentClick inMenu inBtn p =
     (if menuActive p \<and> \<not> inMenu \<and> \<not> inBtn then toggleMenu p else p)"

definition triggerClick_B :: "menu_page \<Rightarrow> menu_page" where
  "triggerClick_B p = toggleMenu_B False p"

definition linkClick_B :: "menu_page \<Rightarrow> menu_page" where
  "linkClick_B p = toggleMenu_B True p"

definition documentClick_B :: "bool \<Rightarrow> bool \<Rightarrow> menu_page \<Rightarrow> menu_page" where
  "documentClick_B inMenu inBtn p =
     (if menuActive p \<and> \<not> inMenu \<and> \<not> inBtn then toggleMenu_B True p else p)"

text \<open>The two states of the menu, as the page shows them.\<close>

definition menuClosed :: "menu_page \<Rightarrow> bool" where
  "menuClosed p = (ariaExpanded p \<noteq> Some ''true'' \<and> \<not> btnActive p \<and> \<not> menuActive p)"

definition menuOpen :: "menu_page \<Rightarrow> bool" where
  "menuOpen p = (ariaExpanded p = Some ''true'' \<and> btnActive p \<and> menuActive p)"

section \<open>Deferred 3D-tour facade\<close>

text \<open>
  The page as the facade code of script.js Version 3.0 (lines 152-176) sees it, on a page
  where both \<^verbatim>\<open>.matterport-facade\<close> and \<^verbatim>\<open>#matterport-frame\<close> exist (no handler is
  attached otherwise): the frame's \<^verbatim>\<open>data-src\<close> and \<^verbatim>\<open>src\<close> attributes, the trace of
  the values written to \<^verbatim>\<open>src\<close> so far (every write makes the frame load, also when the
  value is the one it already has), the facade's inline styles, and the number of 500ms
  timers pending.
\<close>

record facade_page =
  dataSrc :: "string option"
  frameSrc :: "string option"
  srcWrites :: "string list"
  opacity :: string
  pointerEvents :: string
  displayStyle :: string
  timers :: nat

text \<open>The click handler (lines 157-174); \<^verbatim>\<open>if (src)\<close> is false for \<^verbatim>\<open>null\<close> and for the
  empty string.\<close>

definition facadeClick :: "facade_page \<Rightarrow> facade_page" where
  "facadeClick p =
     (case dataSrc p of
        None \<Rightarrow> p
      | Some src \<Rightarrow>
          if \<not> truthy (Some src) then p
          else p\<lparr>frameSrc := Some src,
                 srcWrites := srcWrites p @ [src],
                 opacity := ''0'',
                 pointerEvents := ''none'',
                 timers := Suc (timers p)\<rparr>)"

text \<open>One pending timer fires (lines 170-172).\<close>

definition timerFire :: "facade_page \<Rightarrow> facade_page" where
  "timerFire p =
     (if timers p = 0 then p else p\<lparr>displayStyle := ''none'', timers := timers p - 1\<rparr>)"

section \<open>Scroll reveal\<close>

text \<open>
  Elements are numbered. An intersection entry names its target and says whether it
  intersects. The page as the reveal code sees it: the observer's observation targets, the
  elements that carry class \<^verbatim>\<open>visible\<close>, and the trace of
  \<^verbatim>\<open>classList.add('visible')\<close> calls made so far. Revision B of part_000 also has the two
  closure variables \<^verbatim>\<open>visibleElements\<close> and \<^verbatim>\<open>rafId\<close> (lines 252-253); the browser keeps
  the handles of the animation-frame callbacks requested and not yet run, and hands out
  handles by counting up from 1.
\<close>

record entry =
  target :: nat
  isIntersecting :: bool

record reveal_page =
  observed :: "nat set"
  visible :: "nat set"
  classAdds :: "nat list"
  visibleElements :: "nat list"
  rafId :: "nat option"
  frameRequests :: "nat list"
  lastHandle :: nat

text \<open>The observer callback of script.js (lines 131-140; lines 373-379 and part_000 lines
  123-131 are the same code): the class is written inside the callback.\<close>

definition revealEntry :: "entry \<Rightarrow> reveal_page \<Rightarrow> reveal_page" where
  "revealEntry e p =
     (if isIntersecting e
      then p\<lparr>visible := insert (target e) (visible p),
             classAdds := classAdds p @ [target e],
             observed := observed p - {target e}\<rparr>
      else p)"

definition revealCallback :: "entry list \<Rightarrow> reveal_page \<Rightarrow> reveal_page" where
  "revealCallback entries p = fold revealEntry entries p"

text \<open>The observer callback of part_000 revision B (lines 256-275). The loop body carries
  the local \<^verbatim>\<open>hasNewVisible\<close>; \<^verbatim>\<open>!rafId\<close> holds for \<^verbatim>\<open>null\<close> and for the number 0.\<close>

definition bufferEntry :: "entry \<Rightarrow> reveal_page \<times> bool \<Rightarrow> reveal_page \<times> bool" where
  "bufferEntry e s =
     (case s of (p, hasNewVisible) \<Rightarrow>
        if isIntersecting e
        then (p\<lparr>visibleElements := visibleElements p @ [target e],
                 observed := observed p - {target e}\<rparr>, True)
        else (p, hasNewVisible))"

definition handleSet :: "nat option \<Rightarrow> bool" where
  "handleSet r = (case r of None \<Rightarrow> False | Some h \<Rightarrow> h \<noteq> 0)"

definition requestAnimationFrame :: "reveal_page \<Rightarrow> reveal_page" where
  "requestAnimationFrame p =
     (let h = Suc (lastHandle p)
      in p\<lparr>rafId := Some h, frameRequests := frameRequests p @ [h], lastHandle := h\<rparr>)"

definition revealCallback_B :: "entry list \<Rightarrow> reveal_page \<Rightarrow> reveal_page" where
  "revealCallback_B entries p =
     (case fold bufferEntry entries (p, False) of
        (p1, hasNewVisible) \<Rightarrow>
          if hasNewVisible \<and> \<not> handleSet (rafId p1) then requestAnimationFrame p1 else p1)"

text \<open>The animation-frame callback of revision B (lines 269-273).\<close>

definition frameCommit :: "reveal_page \<Rightarrow> reveal_page" where
  "frameCommit p =
     p\<lparr>visible := visible p \<union> set (visibleElements p),
       classAdds := classAdds p @ visibleElements p,
       visibleElements := [],
       rafId := None\<rparr>"

text \<open>At a rendering frame the browser runs every callback requested before the frame;
  each of them is the commit above.\<close>

definition runFrame :: "reveal_page \<Rightarrow> reveal_page" where
  "runFrame p = fold (\<lambda>h. frameCommit) (frameRequests p) (p\<lparr>frameRequests := []\<rparr>)"

text \<open>What happens to the page: the observer delivers a batch of entries, or a frame is
  rendered. script.js requests no animation frame, so a frame changes nothing there.\<close>

datatype event = Notify "entry list" | Frame

fun step :: "event \<Rightarrow> reveal_page \<Rightarrow> reveal_page" where
  "step (Notify entries) p = revealCallback entries p"
| "step Frame p = p"

fun step_B :: "event \<Rightarrow> reveal_page \<Rightarrow> reveal_page" where
  "step_B (Notify entries) p = revealCallback_B entries p"
| "step_B Frame p = runFrame p"

text \<open>The observer's side of the contract: a batch holds at most one entry per target, and
  only for targets that are observed when the batch is delivered.\<close>

fun wellDelivered :: "(event \<Rightarrow> reveal_page \<Rightarrow> reveal_page) \<Rightarrow> event list \<Rightarrow> reveal_page \<Rightarrow> bool" where
  "wellDelivered f [] p = True"
| "wellDelivered f (Notify entries # evs) p =
     (distinct (map target entries) \<and> set (map target entries) \<subseteq> observed p \<and>
      wellDelivered f evs (f (Notify entries) p))"
| "wellDelivered f (Frame # evs) p = wellDelivered f evs (f Frame p)"

text \<open>The targets of the qualifying entries of a list of batches, in delivery order.\<close>

definition qualifying :: "entry list list \<Rightarrow> nat list" where
  "qualifying batches = map target (filter isIntersecting (concat batches))"

text \<open>No commit is outstanding: the queue is empty, the lock is clear and no animation
  frame is requested.\<close>

definition idle :: "reveal_page \<Rightarrow> bool" where
  "idle p = (visibleElements p = [] \<and> rafId p = None \<and> frameRequests p = [])"

text \<open>The lock of revision B: either no commit is outstanding, or the lock holds the
  (nonzero) handle of the one animation-frame request that is.\<close>

definition lockInv :: "reveal_page \<Rightarrow> bool" where
  "lockInv p =
     (case rafId p of
        None \<Rightarrow> frameRequests p = [] \<and> visibleElements p = []
      | Some h \<Rightarrow> h \<noteq> 0 \<and> frameRequests p = [h])"

text \<open>No element was promoted or queued twice, and none of them is still observed.\<close>

definition onceInv :: "reveal_page \<Rightarrow> bool" where
  "onceInv p =
     (distinct (classAdds p @ visibleElements p) \<and>
      set (classAdds p @ visibleElements p) \<inter> observed p = {})"

section \<open>Properties of the navigation menu\<close>

text \<open>
  C3. Starting from a closed menu, one activation of the trigger opens it: the expanded
  indicator is \<^verbatim>\<open>"true"\<close>, both active classes are set and the body's scroll is locked. A
  second activation closes it again: indicator \<^verbatim>\<open>"false"\<close>, both classes removed, the
  overflow style cleared. This holds for the toggle of script.js and for the one of
  part_000 revision B.
\<close>

theorem menu_toggle_symmetry:
  assumes "menuClosed p"
  shows "menuOpen (triggerClick p) \<and> bodyOverflow (triggerClick p) = ''hidden'' \<and>
         menuClosed (triggerClick (triggerClick p)) \<and>
         ariaExpanded (triggerClick (triggerClick p)) = Some ''false'' \<and>
         bodyOverflow (triggerClick (triggerClick p)) = [] \<and>
         menuOpen (triggerClick_B p) \<and> bodyOverflow (triggerClick_B p) = ''hidden'' \<and>
         menuClosed (triggerClick_B (triggerClick_B p)) \<and>
         ariaExpanded (triggerClick_B (triggerClick_B p)) = Some ''false'' \<and>
         bodyOverflow (triggerClick_B (triggerClick_B p)) = []"
  using assms
  by (simp add: menuClosed_def menuOpen_def triggerClick_def triggerClick_B_def toggleMenu_def
      toggleMenu_B_def boolString_def)

theorem menu_toggle_symmetry_witness:
  "menuClosed \<lparr>ariaExpanded = Some ''false'', btnActive = False, menuActive = False,
               bodyOverflow = [], iconSpan = Some ''menu''\<rparr> \<and>
   menuOpen (triggerClick \<lparr>ariaExpanded = Some ''false'', btnActive = False,
               menuActive = False, bodyOverflow = [], iconSpan = Some ''menu''\<rparr>) \<and>
   menuClosed (triggerClick (triggerClick \<lparr>ariaExpanded = Some ''false'', btnActive = False,
               menuActive = False, bodyOverflow = [], iconSpan = Some ''menu''\<rparr>))"
proof -
  have h: "menuClosed \<lparr>ariaExpanded = Some ''false'', btnActive = False, menuActive = False,
               bodyOverflow = [], iconSpan = Some ''menu''\<rparr>"
    by (simp add: menuClosed_def)
  from menu_toggle_symmetry [OF h] h show ?thesis by simp
qed

text \<open>
  C4. A click on a link inside the menu while the menu is closed leaves it closed (in
  script.js the page is not touched at all; in revision B the forced close rewrites the
  closed state); a click on a link while the menu is open closes it.
\<close>

theorem link_click_forced_close:
  "(menuClosed p \<longrightarrow> linkClick p = p \<and> menuClosed (linkClick_B p)) \<and>
   (menuOpen p \<longrightarrow> menuClosed (linkClick p) \<and> menuClosed (linkClick_B p))"
  by (simp add: menuClosed_def menuOpen_def linkClick_def linkClick_B_def toggleMenu_def
      toggleMenu_B_def boolString_def)

theorem link_click_forced_close_witness:
  "menuClosed \<lparr>ariaExpanded = None, btnActive = False, menuActive = False,
               bodyOverflow = [], iconSpan = Some ''menu''\<rparr> \<and>
   linkClick \<lparr>ariaExpanded = None, btnActive = False, menuActive = False,
              bodyOverflow = [], iconSpan = Some ''menu''\<rparr>
     = \<lparr>ariaExpanded = None, btnActive = False, menuActive = False,
        bodyOverflow = [], iconSpan = Some ''menu''\<rparr> \<and>
   menuOpen \<lparr>ariaExpanded = Some ''true'', btnActive = True, menuActive = True,
             bodyOverflow = ''hidden'', iconSpan = Some ''close''\<rparr> \<and>
   menuClosed (linkClick \<lparr>ariaExpanded = Some ''true'', btnActive = True, menuActive = True,
             bodyOverflow = ''hidden'', iconSpan = Some ''close''\<rparr>) \<and>
   menuClosed (linkClick_B \<lparr>ariaExpanded = Some ''true'', btnActive = True, menuActive = True,
             bodyOverflow = ''hidden'', iconSpan = Some ''close''\<rparr>)"
proof -
  have c: "menuClosed \<lparr>ariaExpanded = None, btnActive = False, menuActive = False,
               bodyOverflow = [], iconSpan = Some ''menu''\<rparr>"
    by (simp add: menuClosed_def)
  have o: "menuOpen \<lparr>ariaExpanded = Some ''true'', btnActive = True, menuActive = True,
             bodyOverflow = ''hidden'', iconSpan = Some ''close''\<rparr>"
    by (simp add: menuOpen_def)
  from c o
    link_click_forced_close [of "\<lparr>ariaExpanded = None, btnActive = False, menuActive = False,
               bodyOverflow = [], iconSpan = Some ''menu''\<rparr>"]
    link_click_forced_close [of "\<lparr>ariaExpanded = Some ''true'', btnActive = True,
               menuActive = True, bodyOverflow = ''hidden'', iconSpan = Some ''close''\<rparr>"]
  show ?thesis by simp
qed

text \<open>
  C9. The toggle reads the trigger's \<^verbatim>\<open>aria-expanded\<close> attribute and treats the menu as
  open exactly when the value is the string \<^verbatim>\<open>"true"\<close>: then the activation closes
  (indicator \<^verbatim>\<open>"false"\<close>, scroll restored). With any other value, also a missing or a
  malformed one, the activation opens: indicator \<^verbatim>\<open>"true"\<close>, scroll locked, and the menu
  panel active (in script.js, where the class is flipped, when it was not active before).
\<close>

theorem aria_expanded_decides:
  "(ariaExpanded p = Some ''true'' \<longrightarrow>
      ariaExpanded (toggleMenu p) = Some ''false'' \<and> bodyOverflow (toggleMenu p) = [] \<and>
      ariaExpanded (toggleMenu_B False p) = Some ''false'' \<and>
      bodyOverflow (toggleMenu_B False p) = [] \<and> \<not> menuActive (toggleMenu_B False p)) \<and>
   (ariaExpanded p \<noteq> Some ''true'' \<longrightarrow>
      ariaExpanded (toggleMenu p) = Some ''true'' \<and> bodyOverflow (toggleMenu p) = ''hidden'' \<and>
      (\<not> menuActive p \<longrightarrow> menuActive (toggleMenu p)) \<and>
      ariaExpanded (toggleMenu_B False p) = Some ''true'' \<and>
      bodyOverflow (toggleMenu_B False p) = ''hidden'' \<and> menuActive (toggleMenu_B False p))"
  by (simp add: toggleMenu_def toggleMenu_B_def boolString_def)

theorem aria_expanded_decides_witness:
  "ariaExpanded (toggleMenu \<lparr>ariaExpanded = None, btnActive = False, menuActive = False,
       bodyOverflow = [], iconSpan = None\<rparr>) = Some ''true'' \<and>
   menuActive (toggleMenu \<lparr>ariaExpanded = None, btnActive = False, menuActive = False,
       bodyOverflow = [], iconSpan = None\<rparr>) \<and>
   ariaExpanded (toggleMenu \<lparr>ariaExpanded = Some ''TRUE'', btnActive = False,
       menuActive = False, bodyOverflow = [], iconSpan = None\<rparr>) = Some ''true'' \<and>
   bodyOverflow (toggleMenu \<lparr>ariaExpanded = Some ''TRUE'', btnActive = False,
       menuActive = False, bodyOverflow = [], iconSpan = None\<rparr>) = ''hidden'' \<and>
   ariaExpanded (toggleMenu \<lparr>ariaExpanded = Some ''true'', btnActive = True,
       menuActive = True, bodyOverflow = ''hidden'', iconSpan = None\<rparr>) = Some ''false''"
  using
    aria_expanded_decides [of "\<lparr>ariaExpanded = None, btnActive = False, menuActive = False,
       bodyOverflow = [], iconSpan = None\<rparr>"]
    aria_expanded_decides [of "\<lparr>ariaExpanded = Some ''TRUE'', btnActive = False,
       menuActive = False, bodyOverflow = [], iconSpan = None\<rparr>"]
    aria_expanded_decides [of "\<lparr>ariaExpanded = Some ''true'', btnActive = True,
       menuActive = True, bodyOverflow = ''hidden'', iconSpan = None\<rparr>"]
  by simp

section \<open>Properties of the theme toggle\<close>

lemma themeClick_ok:
  "storageOk p \<Longrightarrow>
   themeClick p =
     (None, p\<lparr>darkMode := \<not> darkMode p,
              themeIcon := (case themeIcon p of
                              None \<Rightarrow> None
                            | Some _ \<Rightarrow> Some (if \<not> darkMode p then ''light_mode'' else ''dark_mode'')),
              storedTheme := Some (if \<not> darkMode p then ''dark'' else ''light'')\<rparr>)"
  by (simp add: themeClick_def updateIcon_def setItem_def Let_def split: option.splits)

lemma themeClick_B_eq:
  "themeIcon p \<noteq> None \<Longrightarrow> themeClick_B p = themeClick p"
  by (auto simp add: themeClick_B_def themeClick_def updateIcon_def Let_def split: option.splits)

lemma themeClick_fails:
  "\<not> storageOk p \<Longrightarrow>
   themeClick p = (Some StorageError, updateIcon (\<not> darkMode p) (p\<lparr>darkMode := \<not> darkMode p\<rparr>))"
  by (simp add: themeClick_def updateIcon_def setItem_def Let_def split: option.splits)

text \<open>
  C5, as the code has it. With the store usable, one toggle flips the mode and leaves the
  icon and the stored value in agreement with the new mode; two toggles give back the
  original mode, with the icon and the stored value that belong to it. The page is the
  original page when icon and store agreed with the mode before the two toggles (as they do
  after any toggle). Revision B's handler, attached only when the icon exists, does the
  same.
\<close>

theorem theme_double_toggle:
  assumes "storageOk p"
  shows "fst (themeClick p) = None \<and>
         darkMode (snd (themeClick p)) = (\<not> darkMode p) \<and>
         themeSynced (snd (themeClick p)) \<and>
         fst (andThen (themeClick p) themeClick) = None \<and>
         darkMode (snd (andThen (themeClick p) themeClick)) = darkMode p \<and>
         themeSynced (snd (andThen (themeClick p) themeClick)) \<and>
         (themeSynced p \<longrightarrow> andThen (themeClick p) themeClick = (None, p)) \<and>
         (themeIcon p \<noteq> None \<longrightarrow>
            andThen (themeClick_B p) themeClick_B = andThen (themeClick p) themeClick)"
proof -
  have h1: "fst (themeClick p) = None \<and> darkMode (snd (themeClick p)) = (\<not> darkMode p) \<and>
             themeSynced (snd (themeClick p))"
    using assms by (auto simp add: themeClick_ok themeSynced_def split: option.splits)
  have h2: "fst (andThen (themeClick p) themeClick) = None \<and>
             darkMode (snd (andThen (themeClick p) themeClick)) = darkMode p \<and>
             themeSynced (snd (andThen (themeClick p) themeClick))"
    using assms by (auto simp add: themeClick_ok andThen_def themeSynced_def split: option.splits)
  have h3: "themeSynced p \<longrightarrow> andThen (themeClick p) themeClick = (None, p)"
    using assms by (auto simp add: themeClick_ok andThen_def themeSynced_def split: option.splits)
  have h4: "themeIcon p \<noteq> None \<longrightarrow>
            andThen (themeClick_B p) themeClick_B = andThen (themeClick p) themeClick"
  proof
    assume icon: "themeIcon p \<noteq> None"
    then have "themeIcon (snd (themeClick p)) \<noteq> None"
      using assms by (auto simp add: themeClick_ok)
    with icon show "andThen (themeClick_B p) themeClick_B = andThen (themeClick p) themeClick"
      using assms by (auto simp add: themeClick_B_eq andThen_def themeClick_ok split: prod.splits option.splits)
  qed
  from h1 h2 h3 h4 show ?thesis by blast
qed

theorem theme_double_toggle_witness:
  "storageOk \<lparr>toggleBtn = True, themeIcon = Some ''dark_mode'', darkMode = False,
              storageOk = True, storedTheme = Some ''light'', listening = True\<rparr> \<and>
   andThen (themeClick \<lparr>toggleBtn = True, themeIcon = Some ''dark_mode'', darkMode = False,
              storageOk = True, storedTheme = Some ''light'', listening = True\<rparr>) themeClick
     = (None, \<lparr>toggleBtn = True, themeIcon = Some ''dark_mode'', darkMode = False,
              storageOk = True, storedTheme = Some ''light'', listening = True\<rparr>)"
proof -
  have ok: "storageOk \<lparr>toggleBtn = True, themeIcon = Some ''dark_mode'', darkMode = False,
              storageOk = True, storedTheme = Some ''light'', listening = True\<rparr>"
    by simp
  have sync: "themeSynced \<lparr>toggleBtn = True, themeIcon = Some ''dark_mode'', darkMode = False,
              storageOk = True, storedTheme = Some ''light'', listening = True\<rparr>"
    by (simp add: themeSynced_def)
  from theme_double_toggle [OF ok] sync ok show ?thesis by blast
qed

text \<open>
  The claim C5 as stated fails for a visitor with nothing stored: the page is in light mode
  with the matching icon, and after two toggles the store holds \<^verbatim>\<open>"light"\<close>, not its
  original empty state.
\<close>

theorem theme_roundtrip_counterexample:
  "storedTheme \<lparr>toggleBtn = True, themeIcon = Some ''dark_mode'', darkMode = False,
                storageOk = True, storedTheme = None, listening = True\<rparr> = None \<and>
   andThen (themeClick \<lparr>toggleBtn = True, themeIcon = Some ''dark_mode'', darkMode = False,
                storageOk = True, storedTheme = None, listening = True\<rparr>) themeClick
     = (None, \<lparr>toggleBtn = True, themeIcon = Some ''dark_mode'', darkMode = False,
                storageOk = True, storedTheme = Some ''light'', listening = True\<rparr>)"
  by (simp add: themeClick_ok andThen_def)

text \<open>
  C6, as the code has it. When the store cannot be used, the toggle has already flipped the
  mode flag and updated the icon when \<^verbatim>\<open>setItem\<close> throws; nothing catches the exception,
  which leaves the handler, and the stored value stays as it was.
\<close>

theorem theme_toggle_storage_unavailable:
  assumes "\<not> storageOk p"
  shows "fst (themeClick p) = Some StorageError \<and>
         darkMode (snd (themeClick p)) = (\<not> darkMode p) \<and>
         themeIcon (snd (themeClick p)) =
           (case themeIcon p of
              None \<Rightarrow> None
            | Some _ \<Rightarrow> Some (if \<not> darkMode p then ''light_mode'' else ''dark_mode'')) \<and>
         storedTheme (snd (themeClick p)) = storedTheme p \<and>
         (themeIcon p \<noteq> None \<longrightarrow> themeClick_B p = themeClick p)"
  using assms
  by (auto simp add: themeClick_fails themeClick_B_eq updateIcon_def split: option.splits)

theorem theme_toggle_storage_unavailable_witness:
  "\<not> storageOk \<lparr>toggleBtn = True, themeIcon = Some ''dark_mode'', darkMode = False,
                storageOk = False, storedTheme = None, listening = True\<rparr> \<and>
   fst (themeClick \<lparr>toggleBtn = True, themeIcon = Some ''dark_mode'', darkMode = False,
                storageOk = False, storedTheme = None, listening = True\<rparr>) = Some StorageError \<and>
   darkMode (snd (themeClick \<lparr>toggleBtn = True, themeIcon = Some ''dark_mode'',
                darkMode = False, storageOk = False, storedTheme = None, listening = True\<rparr>))"
proof -
  have h: "\<not> storageOk \<lparr>toggleBtn = True, themeIcon = Some ''dark_mode'', darkMode = False,
                storageOk = False, storedTheme = None, listening = True\<rparr>"
    by simp
  from theme_toggle_storage_unavailable [OF h] h show ?thesis by simp
qed

text \<open>
  The claim C6 as stated fails: with the store unavailable the click handler of script.js
  ends with the storage exception, which is not caught.
\<close>

theorem storage_error_swallowed_counterexample:
  "themeClick \<lparr>toggleBtn = True, themeIcon = Some ''dark_mode'', darkMode = False,
               storageOk = False, storedTheme = None, listening = True\<rparr>
     = (Some StorageError,
        \<lparr>toggleBtn = True, themeIcon = Some ''light_mode'', darkMode = True,
         storageOk = False, storedTheme = None, listening = True\<rparr>)"
  by (simp add: themeClick_def updateIcon_def setItem_def Let_def)

text \<open>
  C7 at its failing input. On a page that has the toggle button but no icon element,
  revision A of part_000 attaches the click listener, and a click ends with a TypeError
  after the mode flag was flipped; on such a page already in dark mode the initialisation
  itself ends with the TypeError. The guarded code of script.js returns normally on the
  same page.
\<close>

theorem missing_icon_faults_in_revision_A:
  "initThemeToggle_A \<lparr>toggleBtn = True, themeIcon = None, darkMode = False,
                      storageOk = True, storedTheme = None, listening = False\<rparr>
     = (None, \<lparr>toggleBtn = True, themeIcon = None, darkMode = False,
               storageOk = True, storedTheme = None, listening = True\<rparr>) \<and>
   clickToggle themeClick_A \<lparr>toggleBtn = True, themeIcon = None, darkMode = False,
                      storageOk = True, storedTheme = None, listening = True\<rparr>
     = (Some TypeError, \<lparr>toggleBtn = True, themeIcon = None, darkMode = True,
               storageOk = True, storedTheme = None, listening = True\<rparr>) \<and>
   initThemeToggle_A \<lparr>toggleBtn = True, themeIcon = None, darkMode = True,
                      storageOk = True, storedTheme = Some ''dark'', listening = False\<rparr>
     = (Some TypeError, \<lparr>toggleBtn = True, themeIcon = None, darkMode = True,
               storageOk = True, storedTheme = Some ''dark'', listening = False\<rparr>) \<and>
   clickToggle themeClick \<lparr>toggleBtn = True, themeIcon = None, darkMode = False,
                      storageOk = True, storedTheme = None, listening = True\<rparr>
     = (None, \<lparr>toggleBtn = True, themeIcon = None, darkMode = True,
               storageOk = True, storedTheme = Some ''dark'', listening = True\<rparr>)"
  by (simp add: initThemeToggle_A_def clickToggle_def themeClick_A_def themeClick_def
      updateIcon_A_def updateIcon_def setItem_def andThen_def Let_def)

text \<open>
  C10, as the code has it. The initial choice is dark exactly when the stored value is the
  string \<^verbatim>\<open>"dark"\<close>, or the stored value is missing or the empty string and the system
  signal is dark. So a stored \<^verbatim>\<open>"light"\<close>, or any other non-empty string but
  \<^verbatim>\<open>"dark"\<close>, gives light whatever the system says. Version 3.0 sets the icon from this
  choice; Version 2.0 also adds the dark class when the choice is dark (and never removes
  it).
\<close>

theorem initial_theme_choice:
  "isDarkInitial currentTheme systemDark =
     (currentTheme = Some ''dark'' \<or>
      ((currentTheme = None \<or> currentTheme = Some []) \<and> systemDark)) \<and>
   \<not> isDarkInitial (Some ''light'') True \<and>
   (storageOk p \<longrightarrow>
      fst (initThemeToggle_v3 systemDark p) = None \<and>
      darkMode (snd (initThemeToggle_v3 systemDark p)) = darkMode p \<and>
      themeIcon (snd (initThemeToggle_v3 systemDark p)) =
        (case themeIcon p of
           None \<Rightarrow> None
         | Some _ \<Rightarrow> Some (if isDarkInitial (storedTheme p) systemDark
                            then ''light_mode'' else ''dark_mode'')) \<and>
      fst (initThemeToggle_v2 systemDark p) = None \<and>
      darkMode (snd (initThemeToggle_v2 systemDark p)) =
        (darkMode p \<or> isDarkInitial (storedTheme p) systemDark) \<and>
      themeIcon (snd (initThemeToggle_v2 systemDark p)) =
        themeIcon (snd (initThemeToggle_v3 systemDark p)))"
  by (auto simp add: isDarkInitial_def truthy_def initThemeToggle_v3_def initThemeToggle_v2_def
      getItem_def updateIcon_def Let_def split: option.splits)

theorem initial_theme_choice_witness:
  "storageOk \<lparr>toggleBtn = True, themeIcon = Some ''dark_mode'', darkMode = False,
              storageOk = True, storedTheme = Some ''light'', listening = False\<rparr> \<and>
   \<not> darkMode (snd (initThemeToggle_v2 True
       \<lparr>toggleBtn = True, themeIcon = Some ''dark_mode'', darkMode = False,
        storageOk = True, storedTheme = Some ''light'', listening = False\<rparr>)) \<and>
   isDarkInitial None True \<and> isDarkInitial (Some ''dark'') False"
proof -
  have ok: "storageOk \<lparr>toggleBtn = True, themeIcon = Some ''dark_mode'', darkMode = False,
              storageOk = True, storedTheme = Some ''light'', listening = False\<rparr>"
    by simp
  from ok
    initial_theme_choice [of "Some ''light''" True "\<lparr>toggleBtn = True,
      themeIcon = Some ''dark_mode'', darkMode = False, storageOk = True,
      storedTheme = Some ''light'', listening = False\<rparr>"]
    initial_theme_choice [of None True "\<lparr>toggleBtn = True,
      themeIcon = Some ''dark_mode'', darkMode = False, storageOk = True,
      storedTheme = Some ''light'', listening = False\<rparr>"]
    initial_theme_choice [of "Some ''dark''" False "\<lparr>toggleBtn = True,
      themeIcon = Some ''dark_mode'', darkMode = False, storageOk = True,
      storedTheme = Some ''light'', listening = False\<rparr>"]
  show ?thesis by simp
qed

text \<open>
  The claim C10 as stated fails for a stored empty string: it is a stored value other than
  \<^verbatim>\<open>"dark"\<close>, yet with the system signal dark the choice is dark, because the empty
  string is falsy.
\<close>

theorem stored_empty_string_counterexample:
  "isDarkInitial (Some []) True \<and>
   darkMode (snd (initThemeToggle_v2 True
     \<lparr>toggleBtn = True, themeIcon = Some ''dark_mode'', darkMode = False,
      storageOk = True, storedTheme = Some [], listening = False\<rparr>))"
  by (simp add: isDarkInitial_def truthy_def initThemeToggle_v2_def getItem_def updateIcon_def)

section \<open>Properties of the scroll reveal\<close>

lemma qualifying_Nil [simp]: "qualifying [] = []"
  by (simp add: qualifying_def)

lemma qualifying_Cons: "qualifying (es # bs) = qualifying [es] @ qualifying bs"
  by (simp add: qualifying_def)

lemma qualifying_entry:
  "qualifying [e # es] = (if isIntersecting e then target e # qualifying [es] else qualifying [es])"
  by (simp add: qualifying_def)

lemma revealCallback_closed:
  "revealCallback es p =
     p\<lparr>visible := visible p \<union> set (qualifying [es]),
       classAdds := classAdds p @ qualifying [es],
       observed := observed p - set (qualifying [es])\<rparr>"
proof (induction es arbitrary: p)
  case Nil
  show ?case by (simp add: revealCallback_def qualifying_def)
next
  case (Cons e es)
  have "revealCallback (e # es) p = revealCallback es (revealEntry e p)"
    by (simp add: revealCallback_def)
  moreover have "revealEntry e p =
      (if isIntersecting e
       then p\<lparr>visible := insert (target e) (visible p),
              classAdds := classAdds p @ [target e],
              observed := observed p - {target e}\<rparr>
       else p)"
    by (simp add: revealEntry_def)
  ultimately show ?case
    by (simp add: Cons.IH qualifying_entry Diff_insert2 [symmetric])
qed

lemma fold_bufferEntry:
  "fold bufferEntry es (p, b) =
     (p\<lparr>visibleElements := visibleElements p @ qualifying [es],
        observed := observed p - set (qualifying [es])\<rparr>,
      b \<or> qualifying [es] \<noteq> [])"
proof (induction es arbitrary: p b)
  case Nil
  show ?case by (simp add: qualifying_def)
next
  case (Cons e es)
  have "fold bufferEntry (e # es) (p, b) = fold bufferEntry es (bufferEntry e (p, b))"
    by simp
  moreover have "bufferEntry e (p, b) =
      (if isIntersecting e
       then (p\<lparr>visibleElements := visibleElements p @ [target e],
                observed := observed p - {target e}\<rparr>, True)
       else (p, b))"
    by (simp add: bufferEntry_def)
  ultimately show ?case
    by (simp add: Cons.IH qualifying_entry Diff_insert2 [symmetric])
qed

lemma revealCallback_B_closed:
  "revealCallback_B es p =
     (let p1 = p\<lparr>visibleElements := visibleElements p @ qualifying [es],
                  observed := observed p - set (qualifying [es])\<rparr>
      in if qualifying [es] \<noteq> [] \<and> \<not> handleSet (rafId p) then requestAnimationFrame p1 else p1)"
  by (simp add: revealCallback_B_def fold_bufferEntry Let_def)

lemma runFrame_lock:
  "lockInv p \<Longrightarrow>
   runFrame p = (if rafId p = None then p else frameCommit (p\<lparr>frameRequests := []\<rparr>))"
  by (auto simp add: lockInv_def runFrame_def split: option.splits)


lemma requestAnimationFrame_fields [simp]:
  "visible (requestAnimationFrame p) = visible p"
  "classAdds (requestAnimationFrame p) = classAdds p"
  "visibleElements (requestAnimationFrame p) = visibleElements p"
  "observed (requestAnimationFrame p) = observed p"
  by (simp_all add: requestAnimationFrame_def Let_def)

lemma revealCallback_B_fields:
  "visible (revealCallback_B es p) = visible p"
  "classAdds (revealCallback_B es p) = classAdds p"
  "visibleElements (revealCallback_B es p) = visibleElements p @ qualifying [es]"
  "observed (revealCallback_B es p) = observed p - set (qualifying [es])"
  by (simp_all add: revealCallback_B_closed Let_def)

lemma revealCallback_B_lock:
  assumes "lockInv p"
  shows "lockInv (revealCallback_B es p)"
    and "handleSet (rafId (revealCallback_B es p)) = (handleSet (rafId p) \<or> qualifying [es] \<noteq> [])"
    and "length (frameRequests (revealCallback_B es p)) = (if handleSet (rafId (revealCallback_B es p)) then 1 else 0)"
  using assms
  by (auto simp add: revealCallback_B_closed lockInv_def handleSet_def requestAnimationFrame_def
      Let_def split: option.splits)

lemma runFrame_idle: "lockInv p \<Longrightarrow> idle (runFrame p)"
  by (auto simp add: runFrame_lock lockInv_def idle_def frameCommit_def split: option.splits)

lemma idle_lockInv: "idle p \<Longrightarrow> lockInv p"
  by (simp add: idle_def lockInv_def)

lemma runFrame_fields:
  assumes "lockInv p"
  shows "visible (runFrame p) = visible p \<union> set (visibleElements p)"
    and "classAdds (runFrame p) = classAdds p @ visibleElements p"
    and "observed (runFrame p) = observed p"
    and "visibleElements (runFrame p) = []"
  using assms
  by (auto simp add: runFrame_lock lockInv_def frameCommit_def split: option.splits)

lemma fold_revealCallback_B:
  assumes "lockInv p"
  shows "lockInv (fold revealCallback_B bs p) \<and>
         visible (fold revealCallback_B bs p) = visible p \<and>
         classAdds (fold revealCallback_B bs p) = classAdds p \<and>
         visibleElements (fold revealCallback_B bs p) = visibleElements p @ qualifying bs \<and>
         observed (fold revealCallback_B bs p) = observed p - set (qualifying bs) \<and>
         handleSet (rafId (fold revealCallback_B bs p)) = (handleSet (rafId p) \<or> qualifying bs \<noteq> [])"
  using assms
proof (induction bs arbitrary: p)
  case Nil
  then show ?case by simp
next
  case (Cons es bs)
  from Cons.prems have inv: "lockInv (revealCallback_B es p)"
    by (rule revealCallback_B_lock)
  from Cons.IH [OF inv] Cons.prems show ?case
    by (auto simp add: revealCallback_B_fields revealCallback_B_lock(2) qualifying_Cons [of es bs])
qed

lemma fold_revealCallback:
  "fold revealCallback bs p =
     p\<lparr>visible := visible p \<union> set (qualifying bs),
       classAdds := classAdds p @ qualifying bs,
       observed := observed p - set (qualifying bs)\<rparr>"
proof (induction bs arbitrary: p)
  case Nil
  show ?case by simp
next
  case (Cons es bs)
  have diff: "\<And>A B C :: nat set. A - B - C = A - (B \<union> C)"
    by auto
  have "fold revealCallback (es # bs) p = fold revealCallback bs (revealCallback es p)"
    by simp
  also have "\<dots> =
      (revealCallback es p)\<lparr>visible := visible (revealCallback es p) \<union> set (qualifying bs),
        classAdds := classAdds (revealCallback es p) @ qualifying bs,
        observed := observed (revealCallback es p) - set (qualifying bs)\<rparr>"
    by (rule Cons.IH)
  finally show ?case
    by (simp add: revealCallback_closed [of es p] qualifying_Cons [of es bs] Un_assoc diff)
qed

lemma runFrame_lockInv: "lockInv p \<Longrightarrow> lockInv (runFrame p)"
  by (rule idle_lockInv) (rule runFrame_idle)

lemma fold_step_B_lockInv: "lockInv p \<Longrightarrow> lockInv (fold step_B evs p)"
proof (induction evs arbitrary: p)
  case Nil
  then show ?case by simp
next
  case (Cons ev evs)
  from Cons.prems have "lockInv (step_B ev p)"
    by (cases ev) (simp_all add: revealCallback_B_lock(1) runFrame_lockInv)
  then show ?case by (simp add: Cons.IH)
qed

lemma lockInv_length: "lockInv p \<Longrightarrow> length (frameRequests p) \<le> 1"
  by (auto simp add: lockInv_def split: option.splits)

lemma frameCommit_visible: "visible p \<subseteq> visible (frameCommit p)"
  by (simp add: frameCommit_def)

lemma fold_frameCommit_visible: "visible p \<subseteq> visible (fold (\<lambda>h. frameCommit) hs p)"
proof (induction hs arbitrary: p)
  case Nil
  show ?case by simp
next
  case (Cons h hs)
  have "visible p \<subseteq> visible (frameCommit p)" by (rule frameCommit_visible)
  also have "\<dots> \<subseteq> visible (fold (\<lambda>h. frameCommit) hs (frameCommit p))" by (rule Cons.IH)
  finally show ?case by simp
qed

lemma runFrame_visible: "visible p \<subseteq> visible (runFrame p)"
  using fold_frameCommit_visible [of "p\<lparr>frameRequests := []\<rparr>" "frameRequests p"]
  by (simp add: runFrame_def)

lemma step_visible: "visible p \<subseteq> visible (step ev p)"
  by (cases ev) (auto simp add: revealCallback_closed)

lemma step_B_visible: "visible p \<subseteq> visible (step_B ev p)"
  by (cases ev) (simp_all add: revealCallback_B_fields runFrame_visible)

lemma fold_step_visible: "visible p \<subseteq> visible (fold step evs p)"
proof (induction evs arbitrary: p)
  case Nil
  show ?case by simp
next
  case (Cons ev evs)
  have "visible p \<subseteq> visible (step ev p)" by (rule step_visible)
  also have "\<dots> \<subseteq> visible (fold step evs (step ev p))" by (rule Cons.IH)
  finally show ?case by simp
qed

lemma fold_step_B_visible: "visible p \<subseteq> visible (fold step_B evs p)"
proof (induction evs arbitrary: p)
  case Nil
  show ?case by simp
next
  case (Cons ev evs)
  have "visible p \<subseteq> visible (step_B ev p)" by (rule step_B_visible)
  also have "\<dots> \<subseteq> visible (fold step_B evs (step_B ev p))" by (rule Cons.IH)
  finally show ?case by simp
qed

lemma qualifying_distinct:
  "distinct (map target es) \<Longrightarrow> distinct (qualifying [es])"
  by (simp add: qualifying_def distinct_map_filter)

lemma qualifying_subset: "set (qualifying [es]) \<subseteq> set (map target es)"
  by (auto simp add: qualifying_def)

lemma qualifying_member:
  "e \<in> set es \<Longrightarrow> isIntersecting e \<Longrightarrow> target e \<in> set (qualifying [es])"
  by (auto simp add: qualifying_def)

lemma revealCallback_onceInv:
  assumes "onceInv p" "distinct (map target es)" "set (map target es) \<subseteq> observed p"
  shows "onceInv (revealCallback es p)"
proof -
  from assms(2) have d: "distinct (qualifying [es])" by (rule qualifying_distinct)
  from assms(3) qualifying_subset [of es] have s: "set (qualifying [es]) \<subseteq> observed p" by blast
  from assms(1) d s show ?thesis
    by (auto simp add: onceInv_def revealCallback_closed)
qed

lemma revealCallback_B_onceInv:
  assumes "onceInv p" "distinct (map target es)" "set (map target es) \<subseteq> observed p"
  shows "onceInv (revealCallback_B es p)"
proof -
  from assms(2) have d: "distinct (qualifying [es])" by (rule qualifying_distinct)
  from assms(3) qualifying_subset [of es] have s: "set (qualifying [es]) \<subseteq> observed p" by blast
  from assms(1) d s show ?thesis
    by (auto simp add: onceInv_def revealCallback_B_fields)
qed

lemma frameCommit_onceInv: "onceInv p \<Longrightarrow> onceInv (frameCommit p)"
  by (simp add: onceInv_def frameCommit_def)

lemma fold_frameCommit_onceInv: "onceInv p \<Longrightarrow> onceInv (fold (\<lambda>h. frameCommit) hs p)"
  by (induction hs arbitrary: p) (simp_all add: frameCommit_onceInv)

lemma runFrame_onceInv: "onceInv p \<Longrightarrow> onceInv (runFrame p)"
  using fold_frameCommit_onceInv [of "p\<lparr>frameRequests := []\<rparr>" "frameRequests p"]
  by (simp add: runFrame_def onceInv_def)

lemma fold_step_onceInv:
  "onceInv p \<Longrightarrow> wellDelivered step evs p \<Longrightarrow> onceInv (fold step evs p)"
proof (induction evs arbitrary: p)
  case Nil
  then show ?case by simp
next
  case (Cons ev evs)
  show ?case
  proof (cases ev)
    case (Notify es)
    with Cons.prems have "onceInv (step ev p)" "wellDelivered step evs (step ev p)"
      by (simp_all add: revealCallback_onceInv)
    then show ?thesis by (simp add: Cons.IH)
  next
    case Frame
    with Cons.prems show ?thesis by (simp add: Cons.IH)
  qed
qed

lemma fold_step_B_onceInv:
  "onceInv p \<Longrightarrow> wellDelivered step_B evs p \<Longrightarrow> onceInv (fold step_B evs p)"
proof (induction evs arbitrary: p)
  case Nil
  then show ?case by simp
next
  case (Cons ev evs)
  show ?case
  proof (cases ev)
    case (Notify es)
    with Cons.prems have "onceInv (step_B ev p)" "wellDelivered step_B evs (step_B ev p)"
      by (simp_all add: revealCallback_B_onceInv)
    then show ?thesis by (simp add: Cons.IH)
  next
    case Frame
    with Cons.prems have "onceInv (step_B ev p)" "wellDelivered step_B evs (step_B ev p)"
      by (simp_all add: runFrame_onceInv)
    then show ?thesis by (simp add: Cons.IH)
  qed
qed

text \<open>
  C1, as the code has it. In revision B of part_000, for every sequence of observer
  callbacks delivered while no frame is rendered, starting with no commit outstanding: the
  class of no element changes yet, the queue holds exactly the qualifying targets, an
  animation frame is requested exactly when some entry qualified (one request, however many
  callbacks there were), and the frame's commit promotes exactly the queued elements and
  leaves queue and lock clear. Over any sequence of callbacks and frames at most one request
  is outstanding. The callback of script.js has no queue and requests no frame: the
  qualifying elements are promoted inside the callback.
\<close>

theorem batched_reveal_commit:
  assumes "idle p"
  shows "visible (fold revealCallback_B batches p) = visible p \<and>
         visibleElements (fold revealCallback_B batches p) = qualifying batches \<and>
         length (frameRequests (fold revealCallback_B batches p)) =
           (if qualifying batches = [] then 0 else 1) \<and>
         handleSet (rafId (fold revealCallback_B batches p)) = (qualifying batches \<noteq> []) \<and>
         visible (runFrame (fold revealCallback_B batches p)) =
           visible p \<union> set (qualifying batches) \<and>
         idle (runFrame (fold revealCallback_B batches p)) \<and>
         visible (fold revealCallback batches p) = visible p \<union> set (qualifying batches) \<and>
         visibleElements (fold revealCallback batches p) = visibleElements p \<and>
         frameRequests (fold revealCallback batches p) = frameRequests p \<and>
         length (frameRequests (fold step_B evs p)) \<le> 1"
proof -
  from assms have inv: "lockInv p" by (rule idle_lockInv)
  have most: "length (frameRequests (fold step_B evs p)) \<le> 1"
    using inv by (intro lockInv_length fold_step_B_lockInv)
  from assms have start: "visibleElements p = []" "\<not> handleSet (rafId p)"
    by (simp_all add: idle_def handleSet_def)
  note f = fold_revealCallback_B [OF inv, of batches]
  from f have inv': "lockInv (fold revealCallback_B batches p)" by simp
  have len: "length (frameRequests (fold revealCallback_B batches p)) =
           (if qualifying batches = [] then 0 else 1)"
    using f inv' start by (auto simp add: lockInv_def handleSet_def split: option.splits)
  have direct: "visible (fold revealCallback batches p) = visible p \<union> set (qualifying batches) \<and>
         visibleElements (fold revealCallback batches p) = visibleElements p \<and>
         frameRequests (fold revealCallback batches p) = frameRequests p"
    by (simp add: fold_revealCallback)
  from f start len direct most runFrame_fields(1) [OF inv'] runFrame_idle [OF inv']
  show ?thesis by simp
qed

theorem batched_reveal_commit_witness:
  "idle \<lparr>observed = {0, 1}, visible = {}, classAdds = [], visibleElements = [],
         rafId = None, frameRequests = [], lastHandle = 0\<rparr> \<and>
   visibleElements (fold revealCallback_B
       [[\<lparr>target = 0, isIntersecting = True\<rparr>, \<lparr>target = 1, isIntersecting = False\<rparr>],
        [\<lparr>target = 1, isIntersecting = True\<rparr>]]
       \<lparr>observed = {0, 1}, visible = {}, classAdds = [], visibleElements = [],
        rafId = None, frameRequests = [], lastHandle = 0\<rparr>) = [0, 1] \<and>
   length (frameRequests (fold revealCallback_B
       [[\<lparr>target = 0, isIntersecting = True\<rparr>, \<lparr>target = 1, isIntersecting = False\<rparr>],
        [\<lparr>target = 1, isIntersecting = True\<rparr>]]
       \<lparr>observed = {0, 1}, visible = {}, classAdds = [], visibleElements = [],
        rafId = None, frameRequests = [], lastHandle = 0\<rparr>)) = 1 \<and>
   visible (runFrame (fold revealCallback_B
       [[\<lparr>target = 0, isIntersecting = True\<rparr>, \<lparr>target = 1, isIntersecting = False\<rparr>],
        [\<lparr>target = 1, isIntersecting = True\<rparr>]]
       \<lparr>observed = {0, 1}, visible = {}, classAdds = [], visibleElements = [],
        rafId = None, frameRequests = [], lastHandle = 0\<rparr>)) = {0, 1}"
proof -
  have h: "idle \<lparr>observed = {0, 1}, visible = {}, classAdds = [], visibleElements = [],
         rafId = None, frameRequests = [], lastHandle = 0\<rparr>"
    by (simp add: idle_def)
  have q: "qualifying
       [[\<lparr>target = 0, isIntersecting = True\<rparr>, \<lparr>target = 1, isIntersecting = False\<rparr>],
        [\<lparr>target = 1, isIntersecting = True\<rparr>]] = [0, 1]"
    by (simp add: qualifying_def)
  from batched_reveal_commit [OF h, of
       "[[\<lparr>target = 0, isIntersecting = True\<rparr>, \<lparr>target = 1, isIntersecting = False\<rparr>],
        [\<lparr>target = 1, isIntersecting = True\<rparr>]]"] h q
  show ?thesis by (simp add: insert_commute)
qed

text \<open>
  The claim C1 as stated fails on script.js, where a qualifying element is promoted at once,
  with nothing queued and no commit scheduled; and in revision B a callback without a
  qualifying entry schedules no commit at all.
\<close>

theorem unbatched_reveal_counterexample:
  "visible (revealCallback [\<lparr>target = 0, isIntersecting = True\<rparr>]
      \<lparr>observed = {0}, visible = {}, classAdds = [], visibleElements = [],
       rafId = None, frameRequests = [], lastHandle = 0\<rparr>) = {0} \<and>
   visibleElements (revealCallback [\<lparr>target = 0, isIntersecting = True\<rparr>]
      \<lparr>observed = {0}, visible = {}, classAdds = [], visibleElements = [],
       rafId = None, frameRequests = [], lastHandle = 0\<rparr>) = [] \<and>
   frameRequests (revealCallback [\<lparr>target = 0, isIntersecting = True\<rparr>]
      \<lparr>observed = {0}, visible = {}, classAdds = [], visibleElements = [],
       rafId = None, frameRequests = [], lastHandle = 0\<rparr>) = [] \<and>
   frameRequests (revealCallback_B [\<lparr>target = 0, isIntersecting = False\<rparr>]
      \<lparr>observed = {0}, visible = {}, classAdds = [], visibleElements = [],
       rafId = None, frameRequests = [], lastHandle = 0\<rparr>) = []"
  by (simp add: revealCallback_def revealEntry_def revealCallback_B_def bufferEntry_def)

text \<open>
  C2, as the code has it. In both variants, a qualifying entry for an element ends its
  observation within the same callback (and promotes it, or queues it for promotion); no
  callback and no frame ever removes the class \<^verbatim>\<open>visible\<close> from an element, and a
  further promotion of elements that already carry the class leaves the set of revealed
  elements as it is. The callbacks themselves do not look at what was promoted before: when
  the observer delivers at most one entry per target in a batch, and only for targets it
  still observes, then from a page on which nothing was promoted twice no element is ever
  promoted (or queued) twice.
\<close>

theorem reveal_at_most_once:
  "(e \<in> set es \<and> isIntersecting e \<longrightarrow>
      target e \<notin> observed (revealCallback es p) \<and>
      target e \<in> visible (revealCallback es p) \<and>
      target e \<notin> observed (revealCallback_B es p) \<and>
      target e \<in> set (visibleElements (revealCallback_B es p))) \<and>
   visible p \<subseteq> visible (fold step evs p) \<and>
   visible p \<subseteq> visible (fold step_B evs p) \<and>
   (onceInv p \<and> wellDelivered step evs p \<longrightarrow> distinct (classAdds (fold step evs p))) \<and>
   (onceInv p \<and> wellDelivered step_B evs p \<longrightarrow>
      distinct (classAdds (fold step_B evs p) @ visibleElements (fold step_B evs p))) \<and>
   (set (qualifying [es]) \<subseteq> visible p \<longrightarrow> visible (revealCallback es p) = visible p) \<and>
   (set (visibleElements p) \<subseteq> visible p \<longrightarrow> visible (frameCommit p) = visible p)"
proof -
  have again: "set (qualifying [es]) \<subseteq> visible p \<longrightarrow> visible (revealCallback es p) = visible p"
    by (auto simp add: revealCallback_closed)
  have again_B: "set (visibleElements p) \<subseteq> visible p \<longrightarrow> visible (frameCommit p) = visible p"
    by (auto simp add: frameCommit_def)
  have cancel: "e \<in> set es \<and> isIntersecting e \<longrightarrow>
      target e \<notin> observed (revealCallback es p) \<and>
      target e \<in> visible (revealCallback es p) \<and>
      target e \<notin> observed (revealCallback_B es p) \<and>
      target e \<in> set (visibleElements (revealCallback_B es p))"
    using qualifying_member [of e es]
    by (simp add: revealCallback_closed revealCallback_B_fields)
  have once: "onceInv p \<and> wellDelivered step evs p \<longrightarrow> distinct (classAdds (fold step evs p))"
    using fold_step_onceInv [of p evs] by (auto simp add: onceInv_def)
  have once_B: "onceInv p \<and> wellDelivered step_B evs p \<longrightarrow>
      distinct (classAdds (fold step_B evs p) @ visibleElements (fold step_B evs p))"
    using fold_step_B_onceInv [of p evs] by (simp add: onceInv_def)
  from cancel once once_B again again_B fold_step_visible [of p evs]
    fold_step_B_visible [of p evs]
  show ?thesis by blast
qed

theorem reveal_at_most_once_witness:
  "onceInv \<lparr>observed = {0, 1}, visible = {}, classAdds = [], visibleElements = [],
            rafId = None, frameRequests = [], lastHandle = 0\<rparr> \<and>
   wellDelivered step_B
     [Notify [\<lparr>target = 0, isIntersecting = True\<rparr>, \<lparr>target = 1, isIntersecting = False\<rparr>],
      Frame, Notify [\<lparr>target = 1, isIntersecting = True\<rparr>], Frame]
     \<lparr>observed = {0, 1}, visible = {}, classAdds = [], visibleElements = [],
      rafId = None, frameRequests = [], lastHandle = 0\<rparr> \<and>
   distinct (classAdds (fold step_B
     [Notify [\<lparr>target = 0, isIntersecting = True\<rparr>, \<lparr>target = 1, isIntersecting = False\<rparr>],
      Frame, Notify [\<lparr>target = 1, isIntersecting = True\<rparr>], Frame]
     \<lparr>observed = {0, 1}, visible = {}, classAdds = [], visibleElements = [],
      rafId = None, frameRequests = [], lastHandle = 0\<rparr>) @
     visibleElements (fold step_B
     [Notify [\<lparr>target = 0, isIntersecting = True\<rparr>, \<lparr>target = 1, isIntersecting = False\<rparr>],
      Frame, Notify [\<lparr>target = 1, isIntersecting = True\<rparr>], Frame]
     \<lparr>observed = {0, 1}, visible = {}, classAdds = [], visibleElements = [],
      rafId = None, frameRequests = [], lastHandle = 0\<rparr>)) \<and>
   wellDelivered step
     [Notify [\<lparr>target = 0, isIntersecting = True\<rparr>, \<lparr>target = 1, isIntersecting = False\<rparr>],
      Frame, Notify [\<lparr>target = 1, isIntersecting = True\<rparr>], Frame]
     \<lparr>observed = {0, 1}, visible = {}, classAdds = [], visibleElements = [],
      rafId = None, frameRequests = [], lastHandle = 0\<rparr> \<and>
   distinct (classAdds (fold step
     [Notify [\<lparr>target = 0, isIntersecting = True\<rparr>, \<lparr>target = 1, isIntersecting = False\<rparr>],
      Frame, Notify [\<lparr>target = 1, isIntersecting = True\<rparr>], Frame]
     \<lparr>observed = {0, 1}, visible = {}, classAdds = [], visibleElements = [],
      rafId = None, frameRequests = [], lastHandle = 0\<rparr>)) \<and>
   1 \<notin> observed (revealCallback [\<lparr>target = 1, isIntersecting = True\<rparr>]
     \<lparr>observed = {0, 1}, visible = {}, classAdds = [], visibleElements = [],
      rafId = None, frameRequests = [], lastHandle = 0\<rparr>)"
proof -
  have i: "onceInv \<lparr>observed = {0, 1}, visible = {}, classAdds = [], visibleElements = [],
            rafId = None, frameRequests = [], lastHandle = 0\<rparr>"
    by (simp add: onceInv_def)
  have w: "wellDelivered step
     [Notify [\<lparr>target = 0, isIntersecting = True\<rparr>, \<lparr>target = 1, isIntersecting = False\<rparr>],
      Frame, Notify [\<lparr>target = 1, isIntersecting = True\<rparr>], Frame]
     \<lparr>observed = {0, 1}, visible = {}, classAdds = [], visibleElements = [],
      rafId = None, frameRequests = [], lastHandle = 0\<rparr>"
    by (simp add: revealCallback_def revealEntry_def)
  have w_B: "wellDelivered step_B
     [Notify [\<lparr>target = 0, isIntersecting = True\<rparr>, \<lparr>target = 1, isIntersecting = False\<rparr>],
      Frame, Notify [\<lparr>target = 1, isIntersecting = True\<rparr>], Frame]
     \<lparr>observed = {0, 1}, visible = {}, classAdds = [], visibleElements = [],
      rafId = None, frameRequests = [], lastHandle = 0\<rparr>"
    by (simp add: revealCallback_B_def bufferEntry_def handleSet_def requestAnimationFrame_def
        runFrame_def frameCommit_def)
  have m: "\<lparr>target = 1, isIntersecting = True\<rparr> \<in> set [\<lparr>target = 1, isIntersecting = True\<rparr>] \<and>
           isIntersecting \<lparr>target = 1, isIntersecting = True\<rparr>"
    by simp
  from i w w_B m
    reveal_at_most_once [of "\<lparr>target = 1, isIntersecting = True\<rparr>"
      "[\<lparr>target = 1, isIntersecting = True\<rparr>]"
      "\<lparr>observed = {0, 1}, visible = {}, classAdds = [], visibleElements = [],
        rafId = None, frameRequests = [], lastHandle = 0\<rparr>"
      "[Notify [\<lparr>target = 0, isIntersecting = True\<rparr>, \<lparr>target = 1, isIntersecting = False\<rparr>],
        Frame, Notify [\<lparr>target = 1, isIntersecting = True\<rparr>], Frame]"]
  show ?thesis by simp
qed

text \<open>
  The claim C2 as stated fails in its last part when the observer hands over a batch in
  which an element entered, left and entered again before the callback ran: the callback
  handles every entry of the batch, so the class is added to the element twice (in revision
  B the element is queued twice and the commit adds the class twice).
\<close>

theorem repeated_entry_counterexample:
  "classAdds (fold step
      [Notify [\<lparr>target = 0, isIntersecting = True\<rparr>, \<lparr>target = 0, isIntersecting = False\<rparr>,
               \<lparr>target = 0, isIntersecting = True\<rparr>]]
      \<lparr>observed = {0}, visible = {}, classAdds = [], visibleElements = [],
       rafId = None, frameRequests = [], lastHandle = 0\<rparr>) = [0, 0] \<and>
   classAdds (fold step_B
      [Notify [\<lparr>target = 0, isIntersecting = True\<rparr>, \<lparr>target = 0, isIntersecting = False\<rparr>,
               \<lparr>target = 0, isIntersecting = True\<rparr>], Frame]
      \<lparr>observed = {0}, visible = {}, classAdds = [], visibleElements = [],
       rafId = None, frameRequests = [], lastHandle = 0\<rparr>) = [0, 0] \<and>
   visible (fold step
      [Notify [\<lparr>target = 0, isIntersecting = True\<rparr>, \<lparr>target = 0, isIntersecting = False\<rparr>,
               \<lparr>target = 0, isIntersecting = True\<rparr>]]
      \<lparr>observed = {0}, visible = {}, classAdds = [], visibleElements = [],
       rafId = None, frameRequests = [], lastHandle = 0\<rparr>) = {0}"
  by (simp add: revealCallback_def revealEntry_def revealCallback_B_def bufferEntry_def
      handleSet_def requestAnimationFrame_def runFrame_def frameCommit_def)

section \<open>Properties of the facade\<close>

text \<open>
  C8, as the code has it. Without a locator (attribute missing or empty) a click on the
  facade changes nothing. With a locator, a click writes it to the frame's source, fades the
  facade out and starts the timer that hides it; a second click writes the same source
  again and starts a second timer, and leaves the attributes and styles as the first click
  set them.
\<close>

theorem facade_activation:
  "(\<not> truthy (dataSrc p) \<longrightarrow> facadeClick p = p) \<and>
   (dataSrc p = Some src \<and> src \<noteq> [] \<longrightarrow>
      facadeClick p =
        p\<lparr>frameSrc := Some src, srcWrites := srcWrites p @ [src], opacity := ''0'',
          pointerEvents := ''none'', timers := Suc (timers p)\<rparr> \<and>
      facadeClick (facadeClick p) =
        (facadeClick p)\<lparr>srcWrites := srcWrites p @ [src, src], timers := Suc (Suc (timers p))\<rparr> \<and>
      displayStyle (timerFire (facadeClick p)) = ''none'' \<and>
      displayStyle (timerFire (timerFire (facadeClick (facadeClick p)))) = ''none'' \<and>
      timers (timerFire (timerFire (facadeClick (facadeClick p)))) = timers p)"
  by (auto simp add: facadeClick_def timerFire_def truthy_def split: option.splits)

theorem facade_activation_witness:
  "facadeClick \<lparr>dataSrc = None, frameSrc = None, srcWrites = [], opacity = [],
                pointerEvents = [], displayStyle = [], timers = 0\<rparr>
     = \<lparr>dataSrc = None, frameSrc = None, srcWrites = [], opacity = [],
        pointerEvents = [], displayStyle = [], timers = 0\<rparr> \<and>
   facadeClick \<lparr>dataSrc = Some ''tour'', frameSrc = None, srcWrites = [], opacity = [],
                pointerEvents = [], displayStyle = [], timers = 0\<rparr>
     = \<lparr>dataSrc = Some ''tour'', frameSrc = Some ''tour'', srcWrites = [''tour''],
        opacity = ''0'', pointerEvents = ''none'', displayStyle = [], timers = 1\<rparr>"
  using
    facade_activation [of "\<lparr>dataSrc = None, frameSrc = None, srcWrites = [], opacity = [],
                pointerEvents = [], displayStyle = [], timers = 0\<rparr>" "''tour''"]
    facade_activation [of "\<lparr>dataSrc = Some ''tour'', frameSrc = None, srcWrites = [],
                opacity = [], pointerEvents = [], displayStyle = [], timers = 0\<rparr>" "''tour''"]
  by (simp add: truthy_def)

text \<open>
  The claim C8 as stated fails: after two clicks the source has been written twice and two
  hide timers are pending.
\<close>

theorem facade_double_activation_counterexample:
  "facadeClick (facadeClick \<lparr>dataSrc = Some ''tour'', frameSrc = None, srcWrites = [],
                opacity = [], pointerEvents = [], displayStyle = [], timers = 0\<rparr>)
     = \<lparr>dataSrc = Some ''tour'', frameSrc = Some ''tour'', srcWrites = [''tour'', ''tour''],
        opacity = ''0'', pointerEvents = ''none'', displayStyle = [], timers = 2\<rparr>"
  by (simp add: facadeClick_def truthy_def)

end
